theory Spec2Isabelle
  imports Main "HOL-Library.Sublist" "HOL-Library.AList"
begin

section \<open>JavaScript strings\<close>

text \<open>
  A JavaScript string is a sequence of UTF-16 code units. The model covers the code
  units U+0000 to U+00FF, one \<open>char\<close> each (Latin-1). On this range
  \<open>String.prototype.trim\<close>, \<open>toLowerCase\<close> and \<open>includes\<close> are the functions below:
  the white space and line terminators of ECMA-262 below U+0100 are TAB, LF, VT, FF, CR,
  SP and NBSP, and lowercasing maps A-Z and the Latin-1 capitals U+00C0-U+00DE (without
  the multiplication sign U+00D7) 32 code units up and leaves the rest alone.
\<close>

definition js_whitespace :: "char \<Rightarrow> bool" where
  "js_whitespace c = ((of_char c :: nat) \<in> set [9, 10, 11, 12, 13, 32, 160])"

definition trim :: "string \<Rightarrow> string" where
  "trim s = rev (dropWhile js_whitespace (rev (dropWhile js_whitespace s)))"

definition lower_char :: "char \<Rightarrow> char" where
  "lower_char c =
     (let n = (of_char c :: nat)
      in if (65 \<le> n \<and> n \<le> 90) \<or> (192 \<le> n \<and> n \<le> 222 \<and> n \<noteq> 215)
         then char_of (n + 32) else c)"

definition toLowerCase :: "string \<Rightarrow> string" where
  "toLowerCase s = map lower_char s"

text \<open>\<open>s.includes(sub)\<close>: \<open>sub\<close> occurs in \<open>s\<close> at some position.\<close>

fun includes_js :: "string \<Rightarrow> string \<Rightarrow> bool" where
  "includes_js [] sub = (sub = [])"
| "includes_js (c # s) sub = (prefix sub (c # s) \<or> includes_js s sub)"

text \<open>\<open>Array.prototype.join\<close> on an array of strings.\<close>

fun join :: "string \<Rightarrow> string list \<Rightarrow> string" where
  "join sep [] = []"
| "join sep [x] = x"
| "join sep (x # y # ys) = x @ sep @ join sep (y # ys)"

definition dquote :: string where
  "dquote = [CHR 0x22]"

definition newline :: string where
  "newline = [CHR 0x0A]"

section \<open>Plain objects used as dictionaries\<close>

text \<open>
  \<open>const tableSchemas: Record<string, ColumnInfo[]> = {}\<close> is an ordinary object. Its
  own properties are kept in creation order; \<open>proto\<close> is \<open>None\<close> while the prototype
  is still \<open>Object.prototype\<close>. An assignment \<open>obj[key] = v\<close> creates or overwrites the
  own property \<open>key\<close>, except for the key \<open>__proto__\<close>: that one reaches the accessor
  inherited from \<open>Object.prototype\<close>, which replaces the prototype by \<open>v\<close> (an array is
  an object) and creates no own property.
\<close>

record 'v js_object =
  own :: "(string \<times> 'v) list"
  proto :: "'v option"

definition empty_object :: "'v js_object" where
  "empty_object = \<lparr>own = [], proto = None\<rparr>"

definition js_assign :: "'v js_object \<Rightarrow> string \<Rightarrow> 'v \<Rightarrow> 'v js_object" where
  "js_assign obj key v =
     (if key = ''__proto__'' then obj\<lparr>proto := Some v\<rparr>
      else obj\<lparr>own := AList.update key v (own obj)\<rparr>)"

text \<open>
  \<open>Object.entries\<close> lists the own enumerable string-keyed properties: first the keys
  that are array indices (canonical decimal numerals below \<open>2^32 - 1\<close>) in ascending
  numeric order, then the other keys in creation order.
\<close>

definition is_digit :: "char \<Rightarrow> bool" where
  "is_digit c = (48 \<le> (of_char c :: nat) \<and> (of_char c :: nat) \<le> 57)"

definition decimal :: "string \<Rightarrow> int" where
  "decimal s = foldl (\<lambda>n c. 10 * n + ((of_char c :: int) - 48)) 0 s"

definition is_array_index :: "string \<Rightarrow> bool" where
  "is_array_index k =
     (k \<noteq> [] \<and> list_all is_digit k \<and> (k = ''0'' \<or> hd k \<noteq> CHR ''0'') \<and>
      decimal k < 4294967295)"

definition Object_entries :: "'v js_object \<Rightarrow> (string \<times> 'v) list" where
  "Object_entries obj =
     sort_key (\<lambda>p. decimal (fst p)) (filter (\<lambda>p. is_array_index (fst p)) (own obj)) @
     filter (\<lambda>p. \<not> is_array_index (fst p)) (own obj)"

section \<open>Thrown values, the outside world and asynchronous functions\<close>

text \<open>
  A thrown value is an \<open>Error\<close> with its message, or any other value, kept with what
  \<open>String(value)\<close> gives for it.
\<close>

datatype thrown = Error string | Thrown string

text \<open>
  The world outside the process: the state of the database server (of any type \<open>'d\<close>),
  the texts handed to \<open>client.query\<close> so far, oldest first, and the lines written with
  \<open>console.error\<close>: the label and the value logged after it.
\<close>

record 'd world =
  db :: 'd
  sent :: "string list"
  console :: "(string \<times> thrown) list"

text \<open>
  An \<open>async\<close> function is a function of the world that returns the new world with
  either the value its promise resolves to (\<open>Inr\<close>) or the value it rejects with (\<open>Inl\<close>).
\<close>

type_synonym ('d, 'a) promise = "'d world \<Rightarrow> (thrown + 'a) \<times> 'd world"

definition resolve :: "'a \<Rightarrow> ('d, 'a) promise" where
  "resolve x w = (Inr x, w)"

definition throw :: "thrown \<Rightarrow> ('d, 'a) promise" where
  "throw e w = (Inl e, w)"

text \<open>\<open>const x = await m; f x\<close>\<close>

definition await :: "('d, 'a) promise \<Rightarrow> ('a \<Rightarrow> ('d, 'b) promise) \<Rightarrow> ('d, 'b) promise" where
  "await m f w = (case m w of (Inl e, w') \<Rightarrow> (Inl e, w') | (Inr x, w') \<Rightarrow> f x w')"

text \<open>\<open>try { m } catch (error) { h error }\<close>\<close>

definition try_catch :: "('d, 'a) promise \<Rightarrow> (thrown \<Rightarrow> ('d, 'a) promise) \<Rightarrow> ('d, 'a) promise" where
  "try_catch m h w = (case m w of (Inl e, w') \<Rightarrow> h e w' | (Inr x, w') \<Rightarrow> (Inr x, w'))"

definition console_error :: "string \<Rightarrow> thrown \<Rightarrow> ('d, unit) promise" where
  "console_error label e w = (Inr (), w\<lparr>console := console w @ [(label, e)]\<rparr>)"

text \<open>\<open>console.error(label, error); throw error\<close>, the body of every catch block of the service.\<close>

definition log_and_rethrow :: "string \<Rightarrow> thrown \<Rightarrow> ('d, 'a) promise" where
  "log_and_rethrow label e = await (console_error label e) (\<lambda>_. throw e)"

section \<open>clickhouse-service.ts\<close>

subsection \<open>Configuration\<close>

record Config =
  CLICKHOUSE_URL :: string
  CLICKHOUSE_USERNAME :: string
  CLICKHOUSE_PASSWORD :: string
  CLICKHOUSE_DATABASE :: string

text \<open>
  \<open>process.env\<close>, after \<open>dotenv/config\<close> has read the file \<open>.env\<close> into it, maps a name
  to a string or to \<open>undefined\<close>. \<open>!v\<close> holds of \<open>undefined\<close> and of the empty string.
\<close>

definition falsy :: "string option \<Rightarrow> bool" where
  "falsy v = (v = None \<or> v = Some [])"

text \<open>
  The top level of the module: read the four variables, throw when one is falsy.
  \<open>Inl\<close> is the exception that ends the evaluation of the module.
\<close>

definition load_config :: "(string \<rightharpoonup> string) \<Rightarrow> thrown + Config" where
  "load_config env =
     (if falsy (env ''CLICKHOUSE_URL'') \<or> falsy (env ''CLICKHOUSE_USERNAME'') \<or>
         falsy (env ''CLICKHOUSE_PASSWORD'') \<or> falsy (env ''CLICKHOUSE_DATABASE'')
      then Inl (Error ''Missing required ClickHouse environment variables'')
      else Inr \<lparr>CLICKHOUSE_URL = the (env ''CLICKHOUSE_URL''),
                CLICKHOUSE_USERNAME = the (env ''CLICKHOUSE_USERNAME''),
                CLICKHOUSE_PASSWORD = the (env ''CLICKHOUSE_PASSWORD''),
                CLICKHOUSE_DATABASE = the (env ''CLICKHOUSE_DATABASE'')\<rparr>)"

subsection \<open>The database client\<close>

record TableRow =
  name :: string

record ColumnInfo =
  name :: string
  type :: string

text \<open>
  \<open>@clickhouse/client\<close> is not part of the repository: the client is a parameter.
  \<open>await this.client.query({query, format: 'JSONEachRow'})\<close> followed by
  \<open>await result.json<T>()\<close> is one step of the database: from the query text and the
  state of the server to the decoded rows, or a thrown value, and the next state. The
  service reads the rows at three types, \<open>TableRow\<close>, \<open>ColumnInfo\<close> and the caller's
  row type \<open>'r\<close>; the record has one field for each.
\<close>

record ('d, 'r) ClickHouseClient =
  json_TableRow :: "string \<Rightarrow> 'd \<Rightarrow> (thrown + TableRow list) \<times> 'd"
  json_ColumnInfo :: "string \<Rightarrow> 'd \<Rightarrow> (thrown + ColumnInfo list) \<times> 'd"
  json_T :: "string \<Rightarrow> 'd \<Rightarrow> (thrown + 'r list) \<times> 'd"

definition client_query :: "(string \<Rightarrow> 'd \<Rightarrow> (thrown + 'a) \<times> 'd) \<Rightarrow> string \<Rightarrow> ('d, 'a) promise" where
  "client_query answer q w =
     (case answer q (db w) of (r, d') \<Rightarrow> (r, w\<lparr>db := d', sent := sent w @ [q]\<rparr>))"

subsection \<open>The service\<close>

definition listTables :: "Config \<Rightarrow> ('d, 'r) ClickHouseClient \<Rightarrow> ('d, string list) promise" where
  "listTables cfg client =
     try_catch
       (await (client_query (json_TableRow client) (''SHOW TABLES FROM '' @ CLICKHOUSE_DATABASE cfg))
          (\<lambda>data. resolve (map TableRow.name data)))
       (log_and_rethrow ''Error listing tables:'')"

definition getTableSchema ::
  "Config \<Rightarrow> ('d, 'r) ClickHouseClient \<Rightarrow> string \<Rightarrow> ('d, ColumnInfo list) promise" where
  "getTableSchema cfg client tableName =
     try_catch
       (await (client_query (json_ColumnInfo client)
                 (''DESCRIBE TABLE '' @ CLICKHOUSE_DATABASE cfg @ ''.'' @ tableName))
          resolve)
       (log_and_rethrow (''Error getting schema for table '' @ tableName @ '':''))"

definition read_only_violation :: "string \<Rightarrow> bool" where
  "read_only_violation query =
     (let normalizedQuery = toLowerCase (trim query)
      in includes_js normalizedQuery ''insert'' \<or>
         includes_js normalizedQuery ''update'' \<or>
         includes_js normalizedQuery ''delete'' \<or>
         includes_js normalizedQuery ''drop'' \<or>
         includes_js normalizedQuery ''alter'' \<or>
         includes_js normalizedQuery ''create'')"

definition executeQuery :: "Config \<Rightarrow> ('d, 'r) ClickHouseClient \<Rightarrow> string \<Rightarrow> ('d, 'r list) promise" where
  "executeQuery cfg client query =
     try_catch
       (if read_only_violation query
        then throw (Error ''Only read-only queries are allowed'')
        else await (client_query (json_T client) query) resolve)
       (log_and_rethrow ''Error executing query:'')"

record DatabaseInfo =
  database :: string
  tables :: "string list"
  schemas :: "ColumnInfo list js_object"

text \<open>The loop \<open>for (const table of tables) tableSchemas[table] = await this.getTableSchema(table)\<close>.\<close>

fun fetch_schemas ::
  "Config \<Rightarrow> ('d, 'r) ClickHouseClient \<Rightarrow> string list \<Rightarrow> ColumnInfo list js_object \<Rightarrow>
   ('d, ColumnInfo list js_object) promise" where
  "fetch_schemas cfg client [] tableSchemas w = resolve tableSchemas w"
| "fetch_schemas cfg client (table # rest) tableSchemas w =
     await (getTableSchema cfg client table)
       (\<lambda>schema. fetch_schemas cfg client rest (js_assign tableSchemas table schema)) w"

definition getDatabaseInfo :: "Config \<Rightarrow> ('d, 'r) ClickHouseClient \<Rightarrow> ('d, DatabaseInfo) promise" where
  "getDatabaseInfo cfg client =
     try_catch
       (await (listTables cfg client)
          (\<lambda>tables. await (fetch_schemas cfg client tables empty_object)
             (\<lambda>tableSchemas. resolve
                \<lparr>database = CLICKHOUSE_DATABASE cfg, tables = tables, schemas = tableSchemas\<rparr>)))
       (log_and_rethrow ''Error getting database info:'')"

definition getTableSampleData ::
  "Config \<Rightarrow> ('d, 'r) ClickHouseClient \<Rightarrow> string \<Rightarrow> ('d, 'r list) promise" where
  "getTableSampleData cfg client tableName =
     try_catch
       (await (client_query (json_T client)
                 (''SELECT * FROM '' @ CLICKHOUSE_DATABASE cfg @ ''.'' @ tableName @ '' LIMIT 5''))
          resolve)
       (log_and_rethrow (''Error getting sample data for table '' @ tableName @ '':''))"

section \<open>index.ts\<close>

subsection \<open>What the handlers receive and return\<close>

record ResourceContent =
  uri :: string
  text' :: string
  mimeType :: string


record Resource =
  name :: string
  uri :: string

record ListResourcesResult =
  resources :: "Resource list"

record TextContent =
  type :: string
  text' :: string

text \<open>\<open>isError\<close> is \<open>None\<close> where the returned object has no such property.\<close>

record CallToolResult =
  content :: "TextContent list"
  isError :: "bool option"




text \<open>\<open>error instanceof Error ? error.message : String(error)\<close>\<close>

fun error_message :: "thrown \<Rightarrow> string" where
  "error_message (Error m) = m"
| "error_message (Thrown s) = s"

subsection \<open>Resources\<close>



definition table_schema_list ::
  "Config \<Rightarrow> ('d, 'r) ClickHouseClient \<Rightarrow> ('d, ListResourcesResult) promise" where
  "table_schema_list cfg client =
     await (listTables cfg client)
       (\<lambda>tables. resolve
          \<lparr>resources = map (\<lambda>table. \<lparr>Resource.name = ''Schema for '' @ table,
                                      uri = ''table://'' @ table @ ''/schema''\<rparr>) tables\<rparr>)"


definition table_sample_list ::
  "Config \<Rightarrow> ('d, 'r) ClickHouseClient \<Rightarrow> ('d, ListResourcesResult) promise" where
  "table_sample_list cfg client =
     await (listTables cfg client)
       (\<lambda>tables. resolve
          \<lparr>resources = map (\<lambda>table. \<lparr>Resource.name = ''Sample data for '' @ table,
                                      uri = ''table://'' @ table @ ''/sample''\<rparr>) tables\<rparr>)"


subsection \<open>Tools\<close>

definition text_result :: "string \<Rightarrow> CallToolResult" where
  "text_result txt = \<lparr>content = [\<lparr>TextContent.type = ''text'', text' = txt\<rparr>], isError = None\<rparr>"

definition error_result :: "thrown \<Rightarrow> CallToolResult" where
  "error_result error =
     \<lparr>content = [\<lparr>TextContent.type = ''text'', text' = ''Error: '' @ error_message error\<rparr>],
      isError = Some True\<rparr>"

text \<open>The catch block of both tools: log, then return the error as a result.\<close>

definition log_and_report :: "string \<Rightarrow> thrown \<Rightarrow> ('d, CallToolResult) promise" where
  "log_and_report label error =
     await (console_error label error) (\<lambda>_. resolve (error_result error))"

definition execute_sql ::
  "('r list \<Rightarrow> string) \<Rightarrow> Config \<Rightarrow> ('d, 'r) ClickHouseClient \<Rightarrow> string \<Rightarrow>
   ('d, CallToolResult) promise" where
  "execute_sql stringify cfg client query =
     try_catch
       (await (executeQuery cfg client query)
          (\<lambda>results. resolve (text_result (stringify results))))
       (log_and_report ''Error executing SQL query:'')"

definition column_text :: "ColumnInfo \<Rightarrow> string" where
  "column_text col = ColumnInfo.name col @ '' ('' @ ColumnInfo.type col @ '')''"

definition table_line :: "string \<times> ColumnInfo list \<Rightarrow> string" where
  "table_line entry =
     ''Table '' @ dquote @ fst entry @ dquote @ '' has columns: '' @
     join '', '' (map column_text (snd entry))"

definition schemaInfo :: "DatabaseInfo \<Rightarrow> string" where
  "schemaInfo dbInfo = join (newline @ newline) (map table_line (Object_entries (schemas dbInfo)))"

definition answer_text :: "string \<Rightarrow> DatabaseInfo \<Rightarrow> string" where
  "answer_text question dbInfo =
     ''Based on your question: '' @ dquote @ question @ dquote @
     '', here is the database schema to reference:'' @ newline @ newline @
     schemaInfo dbInfo @ newline @ newline @
     ''To answer this question, you could use a SQL query like: '' @ newline @ newline @
     ''SELECT * FROM ... WHERE ... LIMIT 10;'' @ newline @ newline @
     ''You can execute specific SQL queries using the '' @ dquote @ ''execute-sql'' @ dquote @
     '' tool.''"

definition natural_language_query ::
  "Config \<Rightarrow> ('d, 'r) ClickHouseClient \<Rightarrow> string \<Rightarrow> ('d, CallToolResult) promise" where
  "natural_language_query cfg client question =
     try_catch
       (await (getDatabaseInfo cfg client)
          (\<lambda>dbInfo. resolve (text_result (answer_text question dbInfo))))
       (log_and_report ''Error processing natural language query:'')"

subsection \<open>Start of the process\<close>

text \<open>
  What the process does from its start, in order. The SDK and the client library are
  parameters: \<open>createClient\<close> and \<open>server.connect\<close> may throw.
\<close>

datatype event =
    CreateClient Config
  | RegisterResource string
  | RegisterTool string
  | ConsoleError string
  | Connect
  | OnSIGINT
  | CloseClient
  | Exit nat

record platform =
  createClient_throws :: "Config \<Rightarrow> thrown option"
  connect_throws :: "thrown option"

text \<open>
  \<open>startServer\<close>: the events, in order. A failure of \<open>server.connect\<close> is caught, logged,
  the client closed and the process left with code 1.
\<close>

definition startServer :: "platform \<Rightarrow> event list" where
  "startServer p =
     [ConsoleError ''Starting ClickHouse MCP Server...'', Connect] @
     (case connect_throws p of
        None \<Rightarrow> [ConsoleError ''ClickHouse MCP Server running on stdio'', OnSIGINT]
      | Some e \<Rightarrow> [ConsoleError ''Error starting server:'', CloseClient, Exit 1])"

text \<open>
  The evaluation of \<open>index.ts\<close>: its import of \<open>clickhouse-service.ts\<close> evaluates that
  module first, and an exception there or in \<open>new ClickHouseService()\<close> is uncaught and
  ends the process. The result is the events that happened and the uncaught exception,
  if any.
\<close>

definition index_main :: "platform \<Rightarrow> (string \<rightharpoonup> string) \<Rightarrow> event list \<times> thrown option" where
  "index_main p env =
     (case load_config env of
        Inl e \<Rightarrow> ([], Some e)
      | Inr cfg \<Rightarrow>
          (case createClient_throws p cfg of
             Some e \<Rightarrow> ([CreateClient cfg], Some e)
           | None \<Rightarrow>
               ([CreateClient cfg,
                 RegisterResource ''database-info'',
                 RegisterResource ''table-schema'',
                 RegisterResource ''table-sample'',
                 RegisterTool ''execute-sql'',
                 RegisterTool ''natural-language-query''] @ startServer p, None)))"

section \<open>Words of the specification\<close>

text \<open>The six substrings the query guard blocks.\<close>

definition blocked_words :: "string list" where
  "blocked_words = [''insert'', ''update'', ''delete'', ''drop'', ''alter'', ''create'']"

text \<open>A call that returns rows returns at most \<open>n\<close> of them.\<close>

fun at_most_rows :: "nat \<Rightarrow> thrown + 'r list \<Rightarrow> bool" where
  "at_most_rows n (Inl e) = True"
| "at_most_rows n (Inr rows) = (length rows \<le> n)"

section \<open>Example databases\<close>

text \<open>
  The scenario of the specification: the database \<open>analytics\<close> with the tables
  \<open>events\<close> and \<open>users\<close>. The state of the server counts the queries it has served; a row
  is its number. \<open>events\<close> has six rows. The server answers the texts the examples
  send and rejects every other text; in \<open>analytics.events-- LIMIT 5\<close> the two hyphens
  start a comment that runs to the end of the line, so the text selects all rows.
\<close>

definition analytics_cfg :: Config where
  "analytics_cfg =
     \<lparr>CLICKHOUSE_URL = ''http://localhost:8123'', CLICKHOUSE_USERNAME = ''reader'',
      CLICKHOUSE_PASSWORD = ''secret'', CLICKHOUSE_DATABASE = ''analytics''\<rparr>"

definition events_schema :: "ColumnInfo list" where
  "events_schema =
     [\<lparr>ColumnInfo.name = ''id'', type = ''UInt64''\<rparr>, \<lparr>ColumnInfo.name = ''ts'', type = ''DateTime''\<rparr>]"

definition users_schema :: "ColumnInfo list" where
  "users_schema =
     [\<lparr>ColumnInfo.name = ''id'', type = ''UInt64''\<rparr>, \<lparr>ColumnInfo.name = ''name'', type = ''String''\<rparr>]"

definition events_rows :: "nat list" where
  "events_rows = [1, 2, 3, 4, 5, 6]"

definition analytics_client :: "(nat, nat) ClickHouseClient" where
  "analytics_client =
     \<lparr>json_TableRow = (\<lambda>q d.
        (if q = ''SHOW TABLES FROM analytics''
         then Inr [\<lparr>TableRow.name = ''events''\<rparr>, \<lparr>TableRow.name = ''users''\<rparr>]
         else Inl (Error ''Syntax error''), Suc d)),
      json_ColumnInfo = (\<lambda>q d.
        (if q = ''DESCRIBE TABLE analytics.events'' then Inr events_schema
         else if q = ''DESCRIBE TABLE analytics.users'' then Inr users_schema
         else Inl (Error ''Unknown table''), Suc d)),
      json_T = (\<lambda>q d.
        (if q = ''SELECT * FROM analytics.events LIMIT 5'' then Inr (take 5 events_rows)
         else if q = ''SELECT * FROM analytics.events-- LIMIT 5'' then Inr events_rows
         else if q = ''SELECT id FROM events LIMIT 1'' then Inr (take 1 events_rows)
         else Inl (Error ''Syntax error''), Suc d))\<rparr>"

text \<open>The same server when the connection is lost as the schema of \<open>users\<close> is asked for.\<close>

definition failing_client :: "(nat, nat) ClickHouseClient" where
  "failing_client =
     analytics_client\<lparr>json_ColumnInfo := (\<lambda>q d.
        (if q = ''DESCRIBE TABLE analytics.events'' then Inr events_schema
         else Inl (Error ''Connection lost''), Suc d))\<rparr>"

text \<open>A database with the two tables \<open>events\<close> and \<open>__proto__\<close>.\<close>

definition proto_client :: "(nat, nat) ClickHouseClient" where
  "proto_client =
     \<lparr>json_TableRow = (\<lambda>q d.
        (if q = ''SHOW TABLES FROM analytics''
         then Inr [\<lparr>TableRow.name = ''events''\<rparr>, \<lparr>TableRow.name = ''__proto__''\<rparr>]
         else Inl (Error ''Syntax error''), Suc d)),
      json_ColumnInfo = (\<lambda>q d.
        (if q = ''DESCRIBE TABLE analytics.events'' then Inr events_schema
         else if q = ''DESCRIBE TABLE analytics.__proto__'' then Inr users_schema
         else Inl (Error ''Unknown table''), Suc d)),
      json_T = (\<lambda>q d. (Inl (Error ''Syntax error''), Suc d))\<rparr>"

definition world0 :: "nat world" where
  "world0 = \<lparr>db = 0, sent = [], console = []\<rparr>"

definition full_env :: "string \<rightharpoonup> string" where
  "full_env =
     map_of [(''CLICKHOUSE_URL'', ''http://localhost:8123''), (''CLICKHOUSE_USERNAME'', ''reader''),
             (''CLICKHOUSE_PASSWORD'', ''secret''), (''CLICKHOUSE_DATABASE'', ''analytics'')]"

definition env_without_password :: "string \<rightharpoonup> string" where
  "env_without_password =
     map_of [(''CLICKHOUSE_URL'', ''http://localhost:8123''), (''CLICKHOUSE_USERNAME'', ''reader''),
             (''CLICKHOUSE_DATABASE'', ''analytics'')]"

definition healthy_platform :: platform where
  "healthy_platform = \<lparr>createClient_throws = (\<lambda>cfg. None), connect_throws = None\<rparr>"

section \<open>Facts about the model\<close>

subsection \<open>Strings\<close>

lemma includes_js_sublist: "includes_js s sub \<longleftrightarrow> sublist sub s"
  by (induction s) (simp_all add: sublist_Cons_right)

lemma read_only_violation_iff:
  "read_only_violation query \<longleftrightarrow>
     (\<exists>k \<in> set blocked_words. sublist k (toLowerCase (trim query)))"
  by (simp add: read_only_violation_def blocked_words_def includes_js_sublist Let_def)

subsection \<open>try, catch and await\<close>

lemma try_catch_rethrow:
  "try_catch m (log_and_rethrow label) w =
     (case m w of
        (Inl e, w') \<Rightarrow> (Inl e, w'\<lparr>console := console w' @ [(label, e)]\<rparr>)
      | (Inr x, w') \<Rightarrow> (Inr x, w'))"
  by (simp add: try_catch_def log_and_rethrow_def await_def console_error_def throw_def
      split: prod.splits sum.splits)

lemma try_catch_report:
  "try_catch m (log_and_report label) w =
     (case m w of
        (Inl e, w') \<Rightarrow> (Inr (error_result e), w'\<lparr>console := console w' @ [(label, e)]\<rparr>)
      | (Inr x, w') \<Rightarrow> (Inr x, w'))"
  by (simp add: try_catch_def log_and_report_def await_def console_error_def resolve_def
      split: prod.splits sum.splits)

lemma await_resolve:
  "await m (\<lambda>x. resolve (f x)) w =
     (case m w of (Inl e, w') \<Rightarrow> (Inl e, w') | (Inr x, w') \<Rightarrow> (Inr (f x), w'))"
  by (simp add: await_def resolve_def split: prod.splits sum.splits)

subsection \<open>The service, one call at a time\<close>

lemma listTables_eq:
  "listTables cfg client w =
     (case json_TableRow client (''SHOW TABLES FROM '' @ CLICKHOUSE_DATABASE cfg) (db w) of
        (Inl e, d') \<Rightarrow>
          (Inl e, w\<lparr>db := d', sent := sent w @ [''SHOW TABLES FROM '' @ CLICKHOUSE_DATABASE cfg],
                     console := console w @ [(''Error listing tables:'', e)]\<rparr>)
      | (Inr data, d') \<Rightarrow>
          (Inr (map TableRow.name data),
           w\<lparr>db := d', sent := sent w @ [''SHOW TABLES FROM '' @ CLICKHOUSE_DATABASE cfg]\<rparr>))"
  by (simp add: listTables_def try_catch_rethrow await_resolve client_query_def
      split: prod.splits sum.splits)

lemma getTableSchema_eq:
  "getTableSchema cfg client tableName w =
     (case json_ColumnInfo client
             (''DESCRIBE TABLE '' @ CLICKHOUSE_DATABASE cfg @ ''.'' @ tableName) (db w) of
        (Inl e, d') \<Rightarrow>
          (Inl e,
           w\<lparr>db := d',
              sent := sent w @ [''DESCRIBE TABLE '' @ CLICKHOUSE_DATABASE cfg @ ''.'' @ tableName],
              console := console w @ [(''Error getting schema for table '' @ tableName @ '':'', e)]\<rparr>)
      | (Inr data, d') \<Rightarrow>
          (Inr data,
           w\<lparr>db := d',
              sent := sent w @ [''DESCRIBE TABLE '' @ CLICKHOUSE_DATABASE cfg @ ''.'' @ tableName]\<rparr>))"
  by (simp add: getTableSchema_def try_catch_rethrow await_def resolve_def client_query_def
      split: prod.splits sum.splits)

lemma getTableSampleData_eq:
  "getTableSampleData cfg client tableName w =
     (case json_T client
             (''SELECT * FROM '' @ CLICKHOUSE_DATABASE cfg @ ''.'' @ tableName @ '' LIMIT 5'') (db w) of
        (Inl e, d') \<Rightarrow>
          (Inl e,
           w\<lparr>db := d',
              sent := sent w @
                [''SELECT * FROM '' @ CLICKHOUSE_DATABASE cfg @ ''.'' @ tableName @ '' LIMIT 5''],
              console := console w @
                [(''Error getting sample data for table '' @ tableName @ '':'', e)]\<rparr>)
      | (Inr data, d') \<Rightarrow>
          (Inr data,
           w\<lparr>db := d',
              sent := sent w @
                [''SELECT * FROM '' @ CLICKHOUSE_DATABASE cfg @ ''.'' @ tableName @ '' LIMIT 5'']\<rparr>))"
  by (simp add: getTableSampleData_def try_catch_rethrow await_def resolve_def client_query_def
      split: prod.splits sum.splits)

lemma executeQuery_blocked:
  "read_only_violation query \<Longrightarrow>
   executeQuery cfg client query w =
     (Inl (Error ''Only read-only queries are allowed''),
      w\<lparr>console := console w @
           [(''Error executing query:'', Error ''Only read-only queries are allowed'')]\<rparr>)"
  by (simp add: executeQuery_def try_catch_rethrow throw_def)

lemma executeQuery_allowed:
  "\<not> read_only_violation query \<Longrightarrow>
   executeQuery cfg client query w =
     (case json_T client query (db w) of
        (Inl e, d') \<Rightarrow>
          (Inl e, w\<lparr>db := d', sent := sent w @ [query],
                     console := console w @ [(''Error executing query:'', e)]\<rparr>)
      | (Inr rows, d') \<Rightarrow> (Inr rows, w\<lparr>db := d', sent := sent w @ [query]\<rparr>))"
  by (simp add: executeQuery_def try_catch_rethrow await_def resolve_def client_query_def
      split: prod.splits sum.splits)

lemma fetch_schemas_append:
  "fetch_schemas cfg client (xs @ ys) acc w =
     (case fetch_schemas cfg client xs acc w of
        (Inl e, w') \<Rightarrow> (Inl e, w')
      | (Inr acc', w') \<Rightarrow> fetch_schemas cfg client ys acc' w')"
  by (induction xs arbitrary: acc w) (auto simp: resolve_def await_def split: prod.splits sum.splits)

subsection \<open>The snapshot\<close>

lemma set_update_subset: "set (AList.update k v al) \<subseteq> insert (k, v) (set al)"
  by (induction al) auto

lemma fetch_schemas_Cons_Inr:
  assumes "fetch_schemas cfg client (t # ts) acc w = (Inr acc', w')"
  obtains s w1 where "getTableSchema cfg client t w = (Inr s, w1)"
    and "fetch_schemas cfg client ts (js_assign acc t s) w1 = (Inr acc', w')"
  using assms by (auto simp: await_def split: prod.splits sum.splits)

text \<open>The loop gives every table of the list an own property, except a table named \<open>__proto__\<close>.\<close>

lemma fetch_schemas_keys:
  assumes "fetch_schemas cfg client ts acc w = (Inr acc', w')"
  shows "fst ` set (own acc') = fst ` set (own acc) \<union> (set ts - {''__proto__''})"
  using assms
proof (induction ts arbitrary: acc w)
  case Nil
  then show ?case by (simp add: resolve_def)
next
  case (Cons t ts)
  from Cons.prems obtain s w1 where "getTableSchema cfg client t w = (Inr s, w1)"
    and rest: "fetch_schemas cfg client ts (js_assign acc t s) w1 = (Inr acc', w')"
    by (rule fetch_schemas_Cons_Inr)
  from Cons.IH [OF rest] show ?case
    by (auto simp: js_assign_def dom_update)
qed

lemma fetch_schemas_distinct:
  assumes "fetch_schemas cfg client ts acc w = (Inr acc', w')"
    and "distinct (map fst (own acc))"
  shows "distinct (map fst (own acc'))"
  using assms
proof (induction ts arbitrary: acc w)
  case Nil
  then show ?case by (simp add: resolve_def)
next
  case (Cons t ts)
  from Cons.prems(1) obtain s w1 where "getTableSchema cfg client t w = (Inr s, w1)"
    and rest: "fetch_schemas cfg client ts (js_assign acc t s) w1 = (Inr acc', w')"
    by (rule fetch_schemas_Cons_Inr)
  have "distinct (map fst (own (js_assign acc t s)))"
    using Cons.prems(2) by (simp add: js_assign_def distinct_update)
  with Cons.IH [OF rest] show ?case .
qed

text \<open>Every own property the loop leaves was returned by \<open>getTableSchema\<close> for its table.\<close>

lemma fetch_schemas_values:
  assumes "fetch_schemas cfg client ts acc w = (Inr acc', w')"
    and "(t, s) \<in> set (own acc')"
  shows "(t, s) \<in> set (own acc) \<or>
         (t \<in> set ts \<and> (\<exists>wa wb. getTableSchema cfg client t wa = (Inr s, wb)))"
  using assms
proof (induction ts arbitrary: acc w)
  case Nil
  then show ?case by (simp add: resolve_def)
next
  case (Cons u ts)
  from Cons.prems(1) obtain r w1 where first: "getTableSchema cfg client u w = (Inr r, w1)"
    and rest: "fetch_schemas cfg client ts (js_assign acc u r) w1 = (Inr acc', w')"
    by (rule fetch_schemas_Cons_Inr)
  from Cons.IH [OF rest Cons.prems(2)]
  consider "(t, s) \<in> set (own (js_assign acc u r))"
    | "t \<in> set ts" "\<exists>wa wb. getTableSchema cfg client t wa = (Inr s, wb)"
    by blast
  then show ?case
  proof cases
    case 1
    have "set (AList.update u r (own acc)) \<subseteq> insert (u, r) (set (own acc))"
      by (rule set_update_subset)
    with 1 have "(t, s) = (u, r) \<or> (t, s) \<in> set (own acc)"
      by (auto simp: js_assign_def split: if_splits)
    with first show ?thesis by auto
  next
    case 2
    then show ?thesis by auto
  qed
qed

lemma getDatabaseInfo_Inr:
  assumes "getDatabaseInfo cfg client w = (Inr info, w')"
  obtains w1 where "listTables cfg client w = (Inr (tables info), w1)"
    and "fetch_schemas cfg client (tables info) empty_object w1 = (Inr (schemas info), w')"
    and "database info = CLICKHOUSE_DATABASE cfg"
  using assms
  by (auto simp: getDatabaseInfo_def try_catch_rethrow await_def resolve_def
      split: prod.splits sum.splits)

text \<open>
  A snapshot holds the list \<open>listTables\<close> returned; its \<open>schemas\<close> object has one own
  property for each listed table other than \<open>__proto__\<close> and no other, each a value
  \<open>getTableSchema\<close> returned for that table.
\<close>

lemma getDatabaseInfo_entries:
  assumes "getDatabaseInfo cfg client w = (Inr info, w')"
  shows "\<exists>w1. listTables cfg client w = (Inr (tables info), w1)"
    and "fst ` set (own (schemas info)) = set (tables info) - {''__proto__''}"
    and "distinct (map fst (own (schemas info)))"
    and "(t, s) \<in> set (own (schemas info)) \<Longrightarrow>
         \<exists>wa wb. getTableSchema cfg client t wa = (Inr s, wb)"
proof -
  from assms obtain w1 where l: "listTables cfg client w = (Inr (tables info), w1)" and
    f: "fetch_schemas cfg client (tables info) empty_object w1 = (Inr (schemas info), w')"
    by (rule getDatabaseInfo_Inr)
  from l show "\<exists>w1. listTables cfg client w = (Inr (tables info), w1)" ..
  from fetch_schemas_keys [OF f]
  show "fst ` set (own (schemas info)) = set (tables info) - {''__proto__''}"
    by (simp add: empty_object_def)
  from fetch_schemas_distinct [OF f]
  show "distinct (map fst (own (schemas info)))"
    by (simp add: empty_object_def)
  assume "(t, s) \<in> set (own (schemas info))"
  from fetch_schemas_values [OF f this]
  show "\<exists>wa wb. getTableSchema cfg client t wa = (Inr s, wb)"
    by (simp add: empty_object_def)
qed

text \<open>The queries of a successful \<open>getDatabaseInfo\<close>: one listing, then one description per table.\<close>

lemma getDatabaseInfo_sent:
  assumes "getDatabaseInfo cfg client w = (Inr info, w')"
  shows "sent w' = sent w @ (''SHOW TABLES FROM '' @ CLICKHOUSE_DATABASE cfg) #
           map (\<lambda>t. ''DESCRIBE TABLE '' @ CLICKHOUSE_DATABASE cfg @ ''.'' @ t) (tables info)"
proof -
  have loop: "fetch_schemas cfg client ts acc w1 = (Inr acc', w2) \<Longrightarrow>
      sent w2 = sent w1 @ map (\<lambda>t. ''DESCRIBE TABLE '' @ CLICKHOUSE_DATABASE cfg @ ''.'' @ t) ts"
    for ts acc w1 acc' w2
  proof (induction ts arbitrary: acc w1)
    case Nil
    then show ?case by (simp add: resolve_def)
  next
    case (Cons t ts)
    from Cons.prems obtain s w3 where first: "getTableSchema cfg client t w1 = (Inr s, w3)"
      and rest: "fetch_schemas cfg client ts (js_assign acc t s) w3 = (Inr acc', w2)"
      by (rule fetch_schemas_Cons_Inr)
    from first have "sent w3 = sent w1 @ [''DESCRIBE TABLE '' @ CLICKHOUSE_DATABASE cfg @ ''.'' @ t]"
      by (auto simp: getTableSchema_eq split: prod.splits sum.splits)
    with Cons.IH [OF rest] show ?case by simp
  qed
  from assms obtain w1 where l: "listTables cfg client w = (Inr (tables info), w1)"
    and f: "fetch_schemas cfg client (tables info) empty_object w1 = (Inr (schemas info), w')"
    by (rule getDatabaseInfo_Inr)
  from l have "sent w1 = sent w @ [''SHOW TABLES FROM '' @ CLICKHOUSE_DATABASE cfg]"
    by (auto simp: listTables_eq split: prod.splits sum.splits)
  with loop [OF f] show ?thesis by simp
qed

subsection \<open>The text of the natural-language tool\<close>

lemma set_Object_entries: "set (Object_entries obj) = set (own obj)"
  by (auto simp: Object_entries_def)

lemma sublist_skip: "sublist x zs \<Longrightarrow> sublist x (ys @ zs)"
  by (simp add: sublist_append)

lemma sublist_here: "sublist x ys \<Longrightarrow> sublist x (ys @ zs)"
  by (simp add: sublist_append)

lemma sublist_join: "x \<in> set xs \<Longrightarrow> sublist x (join sep xs)"
proof (induction sep xs rule: join.induct)
  case (1 sep)
  then show ?case by simp
next
  case (2 sep x')
  then show ?case by simp
next
  case (3 sep x' y ys)
  show ?case
  proof (cases "x = x'")
    case True
    then show ?thesis by (simp add: sublist_append_rightI)
  next
    case False
    with 3 have "sublist x (join sep (y # ys))" by simp
    then show ?thesis by (simp add: sublist_append)
  qed
qed

lemma answer_text_question: "sublist question (answer_text question info)"
  unfolding answer_text_def
  by (rule sublist_skip, rule sublist_skip, rule sublist_append_rightI)

lemma answer_text_schemaInfo:
  "sublist x (schemaInfo info) \<Longrightarrow> sublist x (answer_text question info)"
  unfolding answer_text_def
  by (rule sublist_skip, rule sublist_skip, rule sublist_skip, rule sublist_skip,
      rule sublist_skip, rule sublist_skip, rule sublist_skip, rule sublist_here)

lemma answer_text_suggestion:
  "sublist (''You can execute specific SQL queries using the '' @ dquote @ ''execute-sql'' @
     dquote @ '' tool.'') (answer_text question info)"
  unfolding answer_text_def
  by (rule sublist_skip, rule sublist_skip, rule sublist_skip, rule sublist_skip,
      rule sublist_skip, rule sublist_skip, rule sublist_skip, rule sublist_skip,
      rule sublist_skip, rule sublist_skip, rule sublist_skip, rule sublist_skip,
      rule sublist_skip, rule sublist_skip, rule sublist_skip, rule sublist_skip) simp

text \<open>
  The tool sends the queries of \<open>getDatabaseInfo\<close> and no other, whatever the question
  is; its text holds the line of every own property of the snapshot's \<open>schemas\<close>.
\<close>

lemma natural_language_query_sent:
  "sent (snd (natural_language_query cfg client question w)) =
     sent (snd (getDatabaseInfo cfg client w)) \<and>
   db (snd (natural_language_query cfg client question w)) =
     db (snd (getDatabaseInfo cfg client w))"
  by (simp add: natural_language_query_def try_catch_report await_resolve
      split: prod.splits sum.splits)

lemma natural_language_query_text:
  assumes "getDatabaseInfo cfg client w = (Inr info, w')"
    and "entry \<in> set (own (schemas info))"
  shows "fst (natural_language_query cfg client question w) =
           Inr (text_result (answer_text question info))"
    and "sublist (table_line entry) (answer_text question info)"
proof -
  show "fst (natural_language_query cfg client question w) =
           Inr (text_result (answer_text question info))"
    using assms(1) by (simp add: natural_language_query_def try_catch_report await_resolve)
  have "sublist (table_line entry) (schemaInfo info)"
    unfolding schemaInfo_def using assms(2) by (simp add: sublist_join set_Object_entries)
  then show "sublist (table_line entry) (answer_text question info)"
    by (rule answer_text_schemaInfo)
qed

section \<open>The claims\<close>

text \<open>
  C1. For every SQL string that, trimmed and lowercased, contains one of the substrings
  insert, update, delete, drop, alter, create anywhere, the tool \<open>execute-sql\<close> returns an
  error-flagged response (\<open>isError\<close> set, text beginning \<open>Error:\<close>), and no query is sent
  to the database: the list of sent queries and the state of the database are as before.
\<close>

theorem execute_sql_rejects_writes:
  assumes "\<exists>k \<in> set blocked_words. sublist k (toLowerCase (trim query))"
  shows "fst (execute_sql stringify cfg client query w) =
           Inr \<lparr>content = [\<lparr>TextContent.type = ''text'',
                             text' = ''Error: Only read-only queries are allowed''\<rparr>],
                isError = Some True\<rparr> \<and>
         sent (snd (execute_sql stringify cfg client query w)) = sent w \<and>
         db (snd (execute_sql stringify cfg client query w)) = db w"
proof -
  from assms have "read_only_violation query"
    by (simp only: read_only_violation_iff)
  then show ?thesis
    by (simp add: execute_sql_def executeQuery_blocked try_catch_report await_resolve
        error_result_def)
qed

theorem execute_sql_rejects_writes_witness:
  "(\<exists>k \<in> set blocked_words. sublist k (toLowerCase (trim ''DROP TABLE events''))) \<and>
   (\<forall>stringify.
      fst (execute_sql stringify analytics_cfg analytics_client ''DROP TABLE events'' world0) =
        Inr \<lparr>content = [\<lparr>TextContent.type = ''text'',
                          text' = ''Error: Only read-only queries are allowed''\<rparr>],
             isError = Some True\<rparr> \<and>
      sent (snd (execute_sql stringify analytics_cfg analytics_client ''DROP TABLE events'' world0)) =
        sent world0 \<and>
      db (snd (execute_sql stringify analytics_cfg analytics_client ''DROP TABLE events'' world0)) =
        db world0)"
proof -
  have h: "\<exists>k \<in> set blocked_words. sublist k (toLowerCase (trim ''DROP TABLE events''))"
    by code_simp
  show ?thesis
    using h execute_sql_rejects_writes [OF h, of _ analytics_cfg analytics_client world0]
    by blast
qed

text \<open>
  C2. For every SQL string whose trimmed, lowercased form contains none of the six
  substrings, \<open>executeQuery\<close> hands the original string, as it is, to the database: it is
  the one text sent, and the call returns what the database answers to it.
\<close>

theorem executeQuery_forwards_query:
  assumes "\<forall>k \<in> set blocked_words. \<not> sublist k (toLowerCase (trim query))"
  shows "sent (snd (executeQuery cfg client query w)) = sent w @ [query] \<and>
         fst (executeQuery cfg client query w) = fst (json_T client query (db w)) \<and>
         db (snd (executeQuery cfg client query w)) = snd (json_T client query (db w))"
proof -
  from assms have "\<not> read_only_violation query"
    by (simp only: read_only_violation_iff) blast
  then show ?thesis
    by (simp add: executeQuery_allowed split: prod.splits sum.splits)
qed

theorem executeQuery_forwards_query_witness:
  "\<not> (\<exists>k \<in> set blocked_words. sublist k (toLowerCase (trim '' SELECT id FROM events LIMIT 1''))) \<and>
   sent (snd (executeQuery analytics_cfg analytics_client '' SELECT id FROM events LIMIT 1'' world0)) =
     sent world0 @ ['' SELECT id FROM events LIMIT 1''] \<and>
   fst (executeQuery analytics_cfg analytics_client '' SELECT id FROM events LIMIT 1'' world0) =
     fst (json_T analytics_client '' SELECT id FROM events LIMIT 1'' (db world0)) \<and>
   db (snd (executeQuery analytics_cfg analytics_client '' SELECT id FROM events LIMIT 1'' world0)) =
     snd (json_T analytics_client '' SELECT id FROM events LIMIT 1'' (db world0))"
proof -
  have h: "\<forall>k \<in> set blocked_words. \<not> sublist k (toLowerCase (trim '' SELECT id FROM events LIMIT 1''))"
    by code_simp
  show ?thesis
    using h executeQuery_forwards_query [OF h, of analytics_cfg analytics_client world0]
    by blast
qed

text \<open>
  C3. A successful \<open>getDatabaseInfo\<close> returns the list of \<open>listTables\<close> and a \<open>schemas\<close>
  object with one entry per listed table, the result of \<open>getTableSchema\<close> for it. The
  code does so for every table name but one (\<open>getDatabaseInfo_entries\<close>): for a table
  named \<open>__proto__\<close> the assignment \<open>tableSchemas[table] = ...\<close> replaces the prototype of
  the object and stores no entry. With the tables \<open>events\<close> and \<open>__proto__\<close> the snapshot
  lists both tables and \<open>schemas\<close> has the one entry \<open>events\<close>, which is all that
  \<open>Object.entries\<close> and \<open>JSON.stringify\<close> see.
\<close>

theorem getDatabaseInfo_proto_table:
  "fst (getDatabaseInfo analytics_cfg proto_client world0) =
     Inr \<lparr>database = ''analytics'', tables = [''events'', ''__proto__''],
          schemas = \<lparr>own = [(''events'', events_schema)], proto = Some users_schema\<rparr>\<rparr> \<and>
   Object_entries \<lparr>own = [(''events'', events_schema)], proto = Some users_schema\<rparr> =
     [(''events'', events_schema)]"
  by code_simp


text \<open>
  C5. For every table name, \<open>getTableSampleData\<close> returns at most 5 rows. The code means
  to: its comment says \<open>limited to 5 rows\<close> and the text it sends ends in \<open>LIMIT 5\<close>. But it
  puts the name into the text as it is and returns the rows it gets as they are. For the
  name \<open>events--\<close> the text sent is \<open>SELECT * FROM analytics.events-- LIMIT 5\<close>, where the two
  hyphens turn the limit into a comment: the database answers with the six rows of
  \<open>events\<close>, and the six rows are returned.
\<close>

theorem getTableSampleData_comment_name:
  "sent (snd (getTableSampleData analytics_cfg analytics_client ''events--'' world0)) =
     [''SELECT * FROM analytics.events-- LIMIT 5''] \<and>
   fst (getTableSampleData analytics_cfg analytics_client ''events--'' world0) =
     Inr [1, 2, 3, 4, 5, 6] \<and>
   \<not> at_most_rows 5 (fst (getTableSampleData analytics_cfg analytics_client ''events--'' world0))"
  by (simp add: getTableSampleData_eq analytics_client_def analytics_cfg_def events_rows_def
      world0_def)

text \<open>
  C6. When \<open>listTables\<close> has listed the tables, the schemas of the tables before some
  table have been fetched, and the fetch for that table fails, \<open>getDatabaseInfo\<close> rejects
  with that failure: no snapshot is returned, neither the list nor the schemas fetched so
  far, and no further query is sent.
\<close>

theorem getDatabaseInfo_schema_failure:
  assumes "listTables cfg client w = (Inr (before @ table # after), w1)"
    and "fetch_schemas cfg client before empty_object w1 = (Inr partial, w2)"
    and "getTableSchema cfg client table w2 = (Inl e, w3)"
  shows "getDatabaseInfo cfg client w =
           (Inl e, w3\<lparr>console := console w3 @ [(''Error getting database info:'', e)]\<rparr>)"
proof -
  have "fetch_schemas cfg client (table # after) partial w2 = (Inl e, w3)"
    using assms(3) by (simp add: await_def)
  then have "fetch_schemas cfg client (before @ table # after) empty_object w1 = (Inl e, w3)"
    using assms(2) by (simp add: fetch_schemas_append)
  then show ?thesis
    using assms(1) by (simp add: getDatabaseInfo_def try_catch_rethrow await_def)
qed

theorem getDatabaseInfo_schema_failure_witness:
  "listTables analytics_cfg failing_client world0 =
     (Inr ([''events''] @ ''users'' # []), \<lparr>db = 1, sent = [''SHOW TABLES FROM analytics''], console = []\<rparr>) \<and>
   fetch_schemas analytics_cfg failing_client [''events''] empty_object
       \<lparr>db = 1, sent = [''SHOW TABLES FROM analytics''], console = []\<rparr> =
     (Inr \<lparr>own = [(''events'', events_schema)], proto = None\<rparr>,
      \<lparr>db = 2, sent = [''SHOW TABLES FROM analytics'', ''DESCRIBE TABLE analytics.events''],
       console = []\<rparr>) \<and>
   getTableSchema analytics_cfg failing_client ''users''
       \<lparr>db = 2, sent = [''SHOW TABLES FROM analytics'', ''DESCRIBE TABLE analytics.events''],
        console = []\<rparr> =
     (Inl (Error ''Connection lost''),
      \<lparr>db = 3,
       sent = [''SHOW TABLES FROM analytics'', ''DESCRIBE TABLE analytics.events'',
               ''DESCRIBE TABLE analytics.users''],
       console = [(''Error getting schema for table users:'', Error ''Connection lost'')]\<rparr>) \<and>
   getDatabaseInfo analytics_cfg failing_client world0 =
     (Inl (Error ''Connection lost''),
      \<lparr>db = 3,
       sent = [''SHOW TABLES FROM analytics'', ''DESCRIBE TABLE analytics.events'',
               ''DESCRIBE TABLE analytics.users''],
       console = [(''Error getting schema for table users:'', Error ''Connection lost''),
                  (''Error getting database info:'', Error ''Connection lost'')]\<rparr>)"
proof -
  have l: "listTables analytics_cfg failing_client world0 =
     (Inr ([''events''] @ ''users'' # []), \<lparr>db = 1, sent = [''SHOW TABLES FROM analytics''], console = []\<rparr>)"
    by (simp add: listTables_eq failing_client_def analytics_client_def analytics_cfg_def world0_def)
  have f: "fetch_schemas analytics_cfg failing_client [''events''] empty_object
       \<lparr>db = 1, sent = [''SHOW TABLES FROM analytics''], console = []\<rparr> =
     (Inr \<lparr>own = [(''events'', events_schema)], proto = None\<rparr>,
      \<lparr>db = 2, sent = [''SHOW TABLES FROM analytics'', ''DESCRIBE TABLE analytics.events''],
       console = []\<rparr>)"
    by (simp add: getTableSchema_eq await_def resolve_def failing_client_def analytics_client_def
        analytics_cfg_def empty_object_def js_assign_def)
  have g: "getTableSchema analytics_cfg failing_client ''users''
       \<lparr>db = 2, sent = [''SHOW TABLES FROM analytics'', ''DESCRIBE TABLE analytics.events''],
        console = []\<rparr> =
     (Inl (Error ''Connection lost''),
      \<lparr>db = 3,
       sent = [''SHOW TABLES FROM analytics'', ''DESCRIBE TABLE analytics.events'',
               ''DESCRIBE TABLE analytics.users''],
       console = [(''Error getting schema for table users:'', Error ''Connection lost'')]\<rparr>)"
    by (simp add: getTableSchema_eq failing_client_def analytics_client_def analytics_cfg_def)
  show ?thesis
    using l f g getDatabaseInfo_schema_failure [OF l f g] by simp
qed

text \<open>
  C7. The list callbacks of the resource templates \<open>table-schema\<close> and \<open>table-sample\<close>
  return one candidate resource for each table \<open>listTables\<close> returns, in the same order,
  with the URIs \<open>table://<name>/schema\<close> and \<open>table://<name>/sample\<close>.
\<close>

theorem table_resource_lists:
  assumes "listTables cfg client w = (Inr listed, w')"
  shows "table_schema_list cfg client w =
           (Inr \<lparr>resources = map (\<lambda>t. \<lparr>Resource.name = ''Schema for '' @ t,
                                         uri = ''table://'' @ t @ ''/schema''\<rparr>) listed\<rparr>, w') \<and>
         table_sample_list cfg client w =
           (Inr \<lparr>resources = map (\<lambda>t. \<lparr>Resource.name = ''Sample data for '' @ t,
                                         uri = ''table://'' @ t @ ''/sample''\<rparr>) listed\<rparr>, w')"
  using assms by (simp add: table_schema_list_def table_sample_list_def await_def resolve_def)

theorem table_resource_lists_witness:
  "listTables analytics_cfg analytics_client world0 =
     (Inr [''events'', ''users''], \<lparr>db = 1, sent = [''SHOW TABLES FROM analytics''], console = []\<rparr>) \<and>
   table_schema_list analytics_cfg analytics_client world0 =
     (Inr \<lparr>resources =
             [\<lparr>Resource.name = ''Schema for events'', uri = ''table://events/schema''\<rparr>,
              \<lparr>Resource.name = ''Schema for users'', uri = ''table://users/schema''\<rparr>]\<rparr>,
      \<lparr>db = 1, sent = [''SHOW TABLES FROM analytics''], console = []\<rparr>) \<and>
   table_sample_list analytics_cfg analytics_client world0 =
     (Inr \<lparr>resources =
             [\<lparr>Resource.name = ''Sample data for events'', uri = ''table://events/sample''\<rparr>,
              \<lparr>Resource.name = ''Sample data for users'', uri = ''table://users/sample''\<rparr>]\<rparr>,
      \<lparr>db = 1, sent = [''SHOW TABLES FROM analytics''], console = []\<rparr>)"
proof -
  have l: "listTables analytics_cfg analytics_client world0 =
     (Inr [''events'', ''users''], \<lparr>db = 1, sent = [''SHOW TABLES FROM analytics''], console = []\<rparr>)"
    by (simp add: listTables_eq analytics_client_def analytics_cfg_def world0_def)
  show ?thesis
    using l table_resource_lists [OF l] by simp
qed

text \<open>
  C8. If one of the four configuration values (connection URL, user name, password,
  database name) is missing when the process starts, the process ends with an uncaught
  exception before anything else happens: no client is created, no resource or tool is
  registered and the server is not connected.
\<close>

theorem missing_configuration_is_fatal:
  assumes "env ''CLICKHOUSE_URL'' = None \<or> env ''CLICKHOUSE_USERNAME'' = None \<or>
           env ''CLICKHOUSE_PASSWORD'' = None \<or> env ''CLICKHOUSE_DATABASE'' = None"
  shows "index_main p env =
           ([], Some (Error ''Missing required ClickHouse environment variables''))"
  using assms by (auto simp: index_main_def load_config_def falsy_def)

theorem missing_configuration_is_fatal_witness:
  "env_without_password ''CLICKHOUSE_PASSWORD'' = None \<and>
   index_main healthy_platform env_without_password =
     ([], Some (Error ''Missing required ClickHouse environment variables''))"
proof -
  have h: "env_without_password ''CLICKHOUSE_PASSWORD'' = None"
    by (simp add: env_without_password_def)
  then have "env_without_password ''CLICKHOUSE_URL'' = None \<or>
      env_without_password ''CLICKHOUSE_USERNAME'' = None \<or>
      env_without_password ''CLICKHOUSE_PASSWORD'' = None \<or>
      env_without_password ''CLICKHOUSE_DATABASE'' = None"
    by simp
  from missing_configuration_is_fatal [OF this, of healthy_platform] h show ?thesis
    by simp
qed

text \<open>
  C9. The tool \<open>natural-language-query\<close> sends no query but those of \<open>getDatabaseInfo\<close>
  (\<open>natural_language_query_sent\<close>, \<open>getDatabaseInfo_sent\<close>); its text holds the question
  (\<open>answer_text_question\<close>), the suggestion to use \<open>execute-sql\<close> (\<open>answer_text_suggestion\<close>)
  and one line for every entry of \<open>schemas\<close> (\<open>natural_language_query_text\<close>). It does not
  hold a line for every table: with the tables \<open>events\<close> and \<open>__proto__\<close>, the text has the
  line of \<open>events\<close> only, since \<open>schemas\<close> has no entry for \<open>__proto__\<close>.
\<close>

theorem natural_language_query_proto_table:
  "fst (listTables analytics_cfg proto_client world0) = Inr [''events'', ''__proto__''] \<and>
   fst (natural_language_query analytics_cfg proto_client
          ''how many users signed up last week?'' world0) =
     Inr \<lparr>content =
            [\<lparr>TextContent.type = ''text'',
              text' =
                ''Based on your question: '' @ dquote @ ''how many users signed up last week?'' @
                dquote @ '', here is the database schema to reference:'' @ newline @ newline @
                ''Table '' @ dquote @ ''events'' @ dquote @
                '' has columns: id (UInt64), ts (DateTime)'' @ newline @ newline @
                ''To answer this question, you could use a SQL query like: '' @ newline @ newline @
                ''SELECT * FROM ... WHERE ... LIMIT 10;'' @ newline @ newline @
                ''You can execute specific SQL queries using the '' @ dquote @ ''execute-sql'' @
                dquote @ '' tool.''\<rparr>],
          isError = None\<rparr>"
  by code_simp

text \<open>
  C10. For every successful call of \<open>getDatabaseInfo\<close>, the \<open>database\<close> field of the
  snapshot is the database name read from the environment when the process started,
  whatever the tables and their schemas are.
\<close>

theorem getDatabaseInfo_database:
  assumes "load_config env = Inr cfg"
    and "getDatabaseInfo cfg client w = (Inr info, w')"
  shows "database info = CLICKHOUSE_DATABASE cfg \<and>
         env ''CLICKHOUSE_DATABASE'' = Some (database info)"
proof -
  from assms(1) have "env ''CLICKHOUSE_DATABASE'' = Some (CLICKHOUSE_DATABASE cfg)"
    by (auto simp: load_config_def falsy_def split: if_splits)
  moreover from assms(2) have "database info = CLICKHOUSE_DATABASE cfg"
    by (auto simp: getDatabaseInfo_def try_catch_rethrow await_def resolve_def
        split: prod.splits sum.splits)
  ultimately show ?thesis by simp
qed

theorem getDatabaseInfo_database_witness:
  "load_config full_env = Inr analytics_cfg \<and>
   getDatabaseInfo analytics_cfg analytics_client world0 =
     (Inr \<lparr>database = ''analytics'', tables = [''events'', ''users''],
           schemas = \<lparr>own = [(''events'', events_schema), (''users'', users_schema)],
                      proto = None\<rparr>\<rparr>,
      \<lparr>db = 3,
       sent = [''SHOW TABLES FROM analytics'', ''DESCRIBE TABLE analytics.events'',
               ''DESCRIBE TABLE analytics.users''],
       console = []\<rparr>) \<and>
   full_env ''CLICKHOUSE_DATABASE'' = Some ''analytics''"
proof -
  have c: "load_config full_env = Inr analytics_cfg"
    by (simp add: load_config_def full_env_def falsy_def analytics_cfg_def)
  have g: "getDatabaseInfo analytics_cfg analytics_client world0 =
     (Inr \<lparr>database = ''analytics'', tables = [''events'', ''users''],
           schemas = \<lparr>own = [(''events'', events_schema), (''users'', users_schema)],
                      proto = None\<rparr>\<rparr>,
      \<lparr>db = 3,
       sent = [''SHOW TABLES FROM analytics'', ''DESCRIBE TABLE analytics.events'',
               ''DESCRIBE TABLE analytics.users''],
       console = []\<rparr>)"
    by (simp add: getDatabaseInfo_def try_catch_rethrow await_def resolve_def listTables_eq
        getTableSchema_eq analytics_client_def analytics_cfg_def world0_def empty_object_def
        js_assign_def)
  show ?thesis
    using c g getDatabaseInfo_database [OF c g] by simp
qed

end
